theory Spec2Isabelle
  imports Complex_Main "HOL-Library.AList"
begin

section \<open>JavaScript values\<close>

text \<open>
  The client of \<^verbatim>\<open>index.js\<close> is modelled by explicit state passing: every method
  of \<^verbatim>\<open>RedisClient\<close> is a function from the client record to the updated record,
  events emitted and user callbacks invoked are appended to a trace held in the record.

  Strings. A JavaScript string is represented by the bytes of its UTF-8 encoding, a
  \<^verbatim>\<open>Buffer\<close> by its bytes. So \<^verbatim>\<open>Buffer.toString()\<close> (UTF-8 decoding) is the identity on
  the representation for valid UTF-8 content, \<^verbatim>\<open>Buffer.byteLength(s)\<close> is the list
  length, \<^verbatim>\<open>s.length\<close> counts UTF-16 code units and \<^verbatim>\<open>toString('binary')\<close> maps every
  byte to the code point of the same number. Bytes that are not valid UTF-8 (which Node
  replaces by U+FFFD) and the case mapping of non-ASCII letters are outside the model.
  Numbers are integers.
\<close>

definition crlf :: string where
  "crlf = [CHR 0x0D, CHR 0x0A]"

definition digit_char :: "nat \<Rightarrow> char" where
  "digit_char d = char_of (48 + d)"

fun string_of_nat :: "nat \<Rightarrow> string" where
  "string_of_nat n =
     (if n < 10 then [digit_char n] else string_of_nat (n div 10) @ [digit_char (n mod 10)])"

declare string_of_nat.simps [simp del]

text \<open>\<^verbatim>\<open>String(n)\<close> for an integer \<^verbatim>\<open>n\<close>.\<close>

definition string_of_int :: "int \<Rightarrow> string" where
  "string_of_int i = (if i < 0 then CHR ''-'' # string_of_nat (nat (- i)) else string_of_nat (nat i))"

text \<open>\<^verbatim>\<open>s.length\<close>: UTF-16 code units of the string whose UTF-8 bytes are \<open>s\<close>: one per
  code point (a byte that is not a continuation byte), one more for a code point above
  the basic plane (lead byte \<open>0xF0\<close> or more).\<close>

definition js_length :: "string \<Rightarrow> nat" where
  "js_length s =
     length (filter (\<lambda>c. \<not> (128 \<le> (of_char c :: nat) \<and> (of_char c :: nat) < 192)) s)
     + length (filter (\<lambda>c. 240 \<le> (of_char c :: nat)) s)"

text \<open>\<^verbatim>\<open>Buffer.byteLength(s)\<close>: the UTF-8 length.\<close>

definition byteLength :: "string \<Rightarrow> nat" where
  "byteLength s = length s"

text \<open>\<^verbatim>\<open>buf.toString('binary')\<close>: byte \<open>n\<close> becomes code point \<open>n\<close>, here in UTF-8.\<close>

definition binary_char :: "char \<Rightarrow> string" where
  "binary_char c =
     (let n = (of_char c :: nat)
      in if n < 128 then [c] else [char_of (192 + n div 64), char_of (128 + n mod 64)])"

definition binary_toString :: "string \<Rightarrow> string" where
  "binary_toString b = concat (map binary_char b)"

text \<open>\<^verbatim>\<open>s.toUpperCase()\<close> on ASCII letters.\<close>

definition upper_char :: "char \<Rightarrow> char" where
  "upper_char c =
     (let n = (of_char c :: nat) in if 97 \<le> n \<and> n \<le> 122 then char_of (n - 32) else c)"

definition toUpperCase :: "string \<Rightarrow> string" where
  "toUpperCase s = map upper_char s"

text \<open>\<^verbatim>\<open>s.split(sep)\<close> for a separator of one character.\<close>

fun split_char :: "char \<Rightarrow> string \<Rightarrow> string list" where
  "split_char sep [] = [[]]"
| "split_char sep (c # cs) =
     (if c = sep then [] # split_char sep cs
      else (case split_char sep cs of
              [] \<Rightarrow> [[c]]
            | p # ps \<Rightarrow> (c # p) # ps))"

text \<open>\<^verbatim>\<open>xs.join(sep)\<close> on strings.\<close>

fun join :: "string \<Rightarrow> string list \<Rightarrow> string" where
  "join sep [] = []"
| "join sep [x] = x"
| "join sep (x # y # ys) = x @ sep @ join sep (y # ys)"

subsection \<open>Replies, arguments, errors\<close>

text \<open>What the reply parser hands to \<^verbatim>\<open>return_reply\<close>: \<^verbatim>\<open>null\<close>, a number, a string,
  a \<^verbatim>\<open>Buffer\<close> or an array of replies. \<open>RObj proto props\<close> is the object
  \<^verbatim>\<open>reply_to_object\<close> builds: its own properties \<open>props\<close> in insertion order, and its
  prototype \<open>proto\<close> when that is no longer \<^verbatim>\<open>Object.prototype\<close>. \<open>RUndefined\<close> is \<^verbatim>\<open>undefined\<close>, which a callback gets
  for a parameter that was not passed and an array gives for an index out of range.\<close>

datatype reply =
    RNull
  | RUndefined
  | RInt int
  | RStr string
  | RBuf string
  | RArr "reply list"
  | RObj "reply option" "(string \<times> reply) list"

text \<open>An argument of a command.  \<open>AFun k src\<close> is the function with identity \<open>k\<close>
  whose source text (what \<^verbatim>\<open>String(f)\<close> returns) is \<open>src\<close>.\<close>

datatype arg =
    ANull
  | AUndefined
  | ANum int
  | AStr string
  | ABuf string
  | AArr "arg list"
  | AFun nat string

text \<open>An \<^verbatim>\<open>Error\<close> object: its message and the \<^verbatim>\<open>command_used\<close> property, when set.\<close>

datatype jserror = JsError (message: string) (command_used: "string option")

datatype exception = TypeError | RangeError

subsection \<open>Conversions of replies\<close>

text \<open>Truthiness of a reply value, as \<^verbatim>\<open>if (reply)\<close> tests it.\<close>

fun truthy :: "reply \<Rightarrow> bool" where
  "truthy RNull = False"
| "truthy RUndefined = False"
| "truthy (RInt i) = (i \<noteq> 0)"
| "truthy (RStr s) = (s \<noteq> [])"
| "truthy (RBuf b) = True"
| "truthy (RArr xs) = True"
| "truthy (RObj proto kvs) = True"


text \<open>\<^verbatim>\<open>x.toString()\<close>: \<open>None\<close> is the \<^verbatim>\<open>TypeError\<close> of \<^verbatim>\<open>null\<close> and \<^verbatim>\<open>undefined\<close>, which
  have no properties. An array joins its elements with a comma, \<^verbatim>\<open>null\<close> and
  \<^verbatim>\<open>undefined\<close> elements giving the empty string.\<close>

fun reply_toString :: "reply \<Rightarrow> string option" where
  "reply_toString RNull = None"
| "reply_toString RUndefined = None"
| "reply_toString (RInt i) = Some (string_of_int i)"
| "reply_toString (RStr s) = Some s"
| "reply_toString (RBuf b) = Some b"
| "reply_toString (RArr xs) =
     Some (join '','' (map (\<lambda>x. case reply_toString x of None \<Rightarrow> [] | Some s \<Rightarrow> s) xs))"
| "reply_toString (RObj proto kvs) = Some ''[object Object]''"

text \<open>\<^verbatim>\<open>reply[i]\<close>: \<^verbatim>\<open>undefined\<close> out of range.\<close>

definition reply_at :: "reply list \<Rightarrow> nat \<Rightarrow> reply" where
  "reply_at xs i = (if i < length xs then xs ! i else RUndefined)"

text \<open>\<^verbatim>\<open>reply_to_strings\<close>: a \<^verbatim>\<open>Buffer\<close> becomes its string, every element of an array that
  is neither \<^verbatim>\<open>null\<close> nor \<^verbatim>\<open>undefined\<close> becomes its \<^verbatim>\<open>toString()\<close>.\<close>

definition reply_to_strings :: "reply \<Rightarrow> reply" where
  "reply_to_strings reply =
     (case reply of
        RBuf b \<Rightarrow> RStr b
      | RArr xs \<Rightarrow>
          RArr (map (\<lambda>x. if x \<noteq> RNull \<and> x \<noteq> RUndefined
                          then (case reply_toString x of Some s \<Rightarrow> RStr s | None \<Rightarrow> x)
                          else x) xs)
      | _ \<Rightarrow> reply)"

text \<open>\<^verbatim>\<open>reply[j].toString('binary')\<close> in \<^verbatim>\<open>reply_to_object\<close>: byte-wise for a
  \<^verbatim>\<open>Buffer\<close>, the string itself for a string (the parameter is ignored), a
  \<^verbatim>\<open>RangeError\<close> for a number (\<^verbatim>\<open>'binary'\<close> is no radix), a \<^verbatim>\<open>TypeError\<close> for \<^verbatim>\<open>null\<close>.\<close>

fun binary_key :: "reply \<Rightarrow> exception + string" where
  "binary_key RNull = Inl TypeError"
| "binary_key RUndefined = Inl TypeError"
| "binary_key (RInt i) = Inl RangeError"
| "binary_key (RStr s) = Inr s"
| "binary_key (RBuf b) = Inr (binary_toString b)"
| "binary_key (RArr xs) = (case reply_toString (RArr xs) of Some s \<Rightarrow> Inr s | None \<Rightarrow> Inl TypeError)"
| "binary_key (RObj proto kvs) = Inr ''[object Object]''"

text \<open>\<^verbatim>\<open>obj[key] = val\<close> on the object with prototype \<open>proto\<close> and own properties
  \<open>props\<close>. The key \<^verbatim>\<open>__proto__\<close> is the accessor of \<^verbatim>\<open>Object.prototype\<close>: the assignment
  makes no own property, it replaces the prototype when \<open>val\<close> is an object (an array
  and a \<^verbatim>\<open>Buffer\<close> are objects) or \<^verbatim>\<open>null\<close> and does nothing otherwise. Any other key
  becomes an own property, the value of a key already there being replaced.\<close>

fun is_object_or_null :: "reply \<Rightarrow> bool" where
  "is_object_or_null RNull = True"
| "is_object_or_null (RBuf b) = True"
| "is_object_or_null (RArr xs) = True"
| "is_object_or_null (RObj proto kvs) = True"
| "is_object_or_null r = False"

definition object_set ::
  "string \<Rightarrow> reply \<Rightarrow> reply option \<times> (string \<times> reply) list \<Rightarrow> reply option \<times> (string \<times> reply) list" where
  "object_set key val obj =
     (if key = ''__proto__''
      then (if is_object_or_null val then (Some val, snd obj) else obj)
      else (fst obj, AList.update key val (snd obj)))"

text \<open>The loop of \<^verbatim>\<open>reply_to_object\<close>, \<^verbatim>\<open>j\<close> going up by two; an array of odd length
  gives \<^verbatim>\<open>undefined\<close> for the value of its last key.\<close>

fun reply_to_object_loop ::
  "reply list \<Rightarrow> reply option \<times> (string \<times> reply) list
     \<Rightarrow> exception + reply option \<times> (string \<times> reply) list" where
  "reply_to_object_loop [] obj = Inr obj"
| "reply_to_object_loop [k] obj =
     (case binary_key k of
        Inl e \<Rightarrow> Inl e
      | Inr key \<Rightarrow> Inr (object_set key RUndefined obj))"
| "reply_to_object_loop (k # v # rest) obj =
     (case binary_key k of
        Inl e \<Rightarrow> Inl e
      | Inr key \<Rightarrow> reply_to_object_loop rest (object_set key v obj))"

text \<open>\<^verbatim>\<open>reply_to_object\<close>: \<^verbatim>\<open>null\<close> when \<^verbatim>\<open>reply.length === 0\<close> or the reply is no array;
  every value that is no array ends here, whatever its \<^verbatim>\<open>length\<close>.\<close>

definition reply_to_object :: "reply \<Rightarrow> exception + reply" where
  "reply_to_object reply =
     (case reply of
        RArr xs \<Rightarrow>
          (if length xs = 0 then Inr RNull
           else (case reply_to_object_loop xs (None, []) of
                   Inl e \<Rightarrow> Inl e
                 | Inr obj \<Rightarrow> Inr (RObj (fst obj) (snd obj))))
      | _ \<Rightarrow> Inr RNull)"

section \<open>The client\<close>

subsection \<open>State\<close>

text \<open>A callback of a command record: none (\<^verbatim>\<open>undefined\<close>, or any falsy value), a
  function of the user, known by a number, or one of the two closures the client itself
  queues: the wrapper of \<^verbatim>\<open>select(db, callback)\<close>, holding \<open>db\<close> and the user's function
  if \<^verbatim>\<open>callback\<close> is one, and the counting callback of \<^verbatim>\<open>on_ready\<close>, holding the number of
  its \<^verbatim>\<open>callback_count\<close> variable. A function of the user is opaque: the model records
  that it is called and with what, and assumes that it returns without calling back
  into the client. Callbacks of \<^verbatim>\<open>auth\<close>, \<^verbatim>\<open>info\<close>, \<^verbatim>\<open>multi\<close> and \<^verbatim>\<open>eval\<close> are not part of
  the model.\<close>

datatype callback =
    CbUndefined
  | CbFunction nat
  | CbSelect arg "nat option"
  | CbResub nat

fun is_function :: "callback \<Rightarrow> bool" where
  "is_function CbUndefined = False"
| "is_function cb = True"

text \<open>The \<^verbatim>\<open>Command\<close> constructor.\<close>

record command_obj =
  command :: string
  args :: "arg list"
  sub_command :: bool
  buffer_args :: bool
  callback :: callback

definition Command :: "string \<Rightarrow> arg list \<Rightarrow> bool \<Rightarrow> bool \<Rightarrow> callback \<Rightarrow> command_obj" where
  "Command cmd as sub buf cb =
     \<lparr>command = cmd, args = as, sub_command = sub, buffer_args = buf, callback = cb\<rparr>"

text \<open>Events emitted by the client, and the calls of user functions, in the order in
  which they happen. \<open>ECall k err reply\<close> is the call \<^verbatim>\<open>f(err, reply)\<close> of the user's
  function \<open>k\<close>, \<open>ESubscription type channel count\<close> the event named \<open>type\<close>
  (\<^verbatim>\<open>subscribe\<close>, \<^verbatim>\<open>unsubscribe\<close>, \<^verbatim>\<open>psubscribe\<close>, \<^verbatim>\<open>punsubscribe\<close>), \<open>EMonitor line\<close> the
  \<^verbatim>\<open>monitor\<close> event of the line \<open>line\<close> (its listener receives the timestamp and the
  arguments cut out of the line), \<open>EThrown e\<close> the \<^verbatim>\<open>error\<close> event \<^verbatim>\<open>on_data\<close> emits for an
  exception it caught, \<open>EClosure cb err reply\<close> the call of one of the client's own
  closures \<open>cb\<close> as the callback of a command record (no event: it is in the trace so
  that every call of a callback can be counted). Listeners are opaque like user callbacks, and an
  \<^verbatim>\<open>error\<close> listener is assumed to be installed.\<close>

datatype event =
    EConnect
  | EReady
  | EEnd
  | EDrain
  | EIdle
  | EError jserror
  | EReconnecting nat nat
  | EMessage string reply
  | EPMessage string string reply
  | ESubscription string reply reply
  | EMonitor string
  | EThrown exception
  | ECall nat "jserror option" reply
  | EClosure callback "jserror option" reply

text \<open>The transport. \<open>written\<close> is what \<^verbatim>\<open>stream.write\<close> has been given, in order;
  \<open>write_flushed i\<close> is what the \<open>i\<close>-th call of \<^verbatim>\<open>write\<close> on this stream returns
  (\<^verbatim>\<open>false\<close>: the data was buffered), which is the transport's choice.\<close>

datatype chunk = WStr string | WBuf string

record stream =
  writable :: bool
  written :: "chunk list"
  write_flushed :: "nat \<Rightarrow> bool"

definition stream_write :: "chunk \<Rightarrow> stream \<Rightarrow> bool \<times> stream" where
  "stream_write data st = (write_flushed st (length (written st)), st\<lparr>written := written st @ [data]\<rparr>)"

text \<open>The state saved in \<^verbatim>\<open>old_state\<close> by \<^verbatim>\<open>connection_gone\<close>.\<close>

record saved_state =
  saved_monitoring :: bool
  saved_pub_sub_mode :: bool
  saved_selected_db :: arg

text \<open>The fields of \<^verbatim>\<open>RedisClient\<close>. \<^verbatim>\<open>null\<close> is \<open>None\<close> for \<open>max_attempts\<close> (there
  \<^verbatim>\<open>undefined\<close>), \<open>retry_max_delay\<close>, \<open>retry_timer\<close> (else the delay of the pending timer)
  and \<open>old_state\<close>, and \<open>ANull\<close> for \<open>selected_db\<close>. \<open>subscription_set\<close> lists the keys of
  the object in insertion order, as \<^verbatim>\<open>Object.keys\<close> gives them. \<open>callback_count n\<close> is
  the variable \<^verbatim>\<open>callback_count\<close> of the \<open>n\<close>-th call of \<^verbatim>\<open>on_ready\<close> that made one, and
  \<open>closures\<close> the number of these calls. Delays are whole milliseconds.
  \<open>retry_backoff\<close> is the constant 1.7.\<close>

record client =
  stream :: stream
  detect_buffers :: bool
  connected :: bool
  ready :: bool
  send_anyway :: bool
  should_buffer :: bool
  command_queue_high_water :: nat
  command_queue_low_water :: nat
  max_attempts :: "nat option"
  command_queue :: "command_obj list"
  offline_queue :: "command_obj list"
  commands_sent :: nat
  connect_timeout :: nat
  enable_offline_queue :: bool
  retry_max_delay :: "nat option"
  retry_timer :: "nat option"
  retry_totaltime :: nat
  retry_delay :: nat
  attempts :: nat
  pub_sub_mode :: bool
  subscription_set :: "string list"
  monitoring :: bool
  closing :: bool
  selected_db :: arg
  old_state :: "saved_state option"
  emitted_end :: bool
  callback_count :: "nat \<Rightarrow> int"
  closures :: nat
  events :: "event list"

definition emit :: "event \<Rightarrow> client \<Rightarrow> client" where
  "emit e c = c\<lparr>events := events c @ [e]\<rparr>"

text \<open>Modelled from the spec: \<^verbatim>\<open>./lib/queue.js\<close>, the two FIFOs with \<^verbatim>\<open>push\<close>, \<^verbatim>\<open>shift\<close> and
  \<^verbatim>\<open>length\<close>. A queue is the list of its elements, oldest first; \<^verbatim>\<open>shift\<close> on the empty
  queue gives \<^verbatim>\<open>undefined\<close>, here \<open>None\<close>.\<close>

definition queue_push :: "'a \<Rightarrow> 'a list \<Rightarrow> 'a list" where
  "queue_push x q = q @ [x]"

definition queue_shift :: "'a list \<Rightarrow> 'a option \<times> 'a list" where
  "queue_shift q = (case q of [] \<Rightarrow> (None, []) | x # xs \<Rightarrow> (Some x, xs))"

subsection \<open>Callbacks and \<^verbatim>\<open>flush_and_error\<close>\<close>

text \<open>Calling a callback with \<^verbatim>\<open>(err, reply)\<close>. The wrapper of \<^verbatim>\<open>select\<close> is
  \<^verbatim>\<open>function (err, res) { if (err === null) { self.selected_db = db; }
     if (typeof callback === 'function') { callback(err, res); }
     else if (err) { self.emit('error', err); } }\<close>
  and the counting callback of \<^verbatim>\<open>on_ready\<close> is
  \<^verbatim>\<open>function () { callback_count--; if (callback_count === 0) { self.emit("ready"); } }\<close>.
  A caller passes \<open>None\<close> for \<^verbatim>\<open>null\<close> and an error otherwise. Every call site tests the
  callback first, so \<open>CbUndefined\<close> is never called.\<close>

fun invoke_callback :: "callback \<Rightarrow> jserror option \<Rightarrow> reply \<Rightarrow> client \<Rightarrow> client" where
  "invoke_callback CbUndefined err res c = c"
| "invoke_callback (CbFunction k) err res c = emit (ECall k err res) c"
| "invoke_callback (CbSelect db user) err res c =
     (let c0 = emit (EClosure (CbSelect db user) err res) c;
          c1 = (if err = None then c0\<lparr>selected_db := db\<rparr> else c0)
      in case user of
           Some k \<Rightarrow> emit (ECall k err res) c1
         | None \<Rightarrow> (case err of Some e \<Rightarrow> emit (EError e) c1 | None \<Rightarrow> c1))"
| "invoke_callback (CbResub n) err res c =
     (let c0 = emit (EClosure (CbResub n) err res) c;
          c1 = c0\<lparr>callback_count := (callback_count c0)(n := callback_count c0 n - 1)\<rparr>
      in if callback_count c1 n = 0 then emit EReady c1 else c1)"

lemma invoke_callback_offline_queue [simp]:
  "offline_queue (invoke_callback cb err res c) = offline_queue c"
  by (cases cb) (auto simp: emit_def Let_def split: option.splits)

lemma invoke_callback_command_queue [simp]:
  "command_queue (invoke_callback cb err res c) = command_queue c"
  by (cases cb) (auto simp: emit_def Let_def split: option.splits)

text \<open>The two loops of \<^verbatim>\<open>flush_and_error\<close>, each running while its queue has an element.\<close>

function flush_offline_queue :: "jserror \<Rightarrow> client \<Rightarrow> client" where
  "flush_offline_queue error c =
     (case offline_queue c of
        [] \<Rightarrow> c
      | command_obj # q \<Rightarrow>
          (let c1 = c\<lparr>offline_queue := q\<rparr>
           in flush_offline_queue error
                (if is_function (callback command_obj)
                 then invoke_callback (callback command_obj) (Some error) RUndefined c1
                 else c1)))"
  by pat_completeness auto
termination
  by (relation "measure (\<lambda>(error, c). length (offline_queue c))") auto

function flush_command_queue :: "jserror \<Rightarrow> client \<Rightarrow> client" where
  "flush_command_queue error c =
     (case command_queue c of
        [] \<Rightarrow> c
      | command_obj # q \<Rightarrow>
          (let c1 = c\<lparr>command_queue := q\<rparr>
           in flush_command_queue error
                (if is_function (callback command_obj)
                 then invoke_callback (callback command_obj) (Some error) RUndefined c1
                 else c1)))"
  by pat_completeness auto
termination
  by (relation "measure (\<lambda>(error, c). length (command_queue c))") auto

declare flush_offline_queue.simps [simp del] flush_command_queue.simps [simp del]

definition flush_and_error :: "string \<Rightarrow> client \<Rightarrow> client" where
  "flush_and_error msg c =
     (let error = JsError msg None;
          c1 = (flush_offline_queue error c)\<lparr>offline_queue := []\<rparr>
      in (flush_command_queue error c1)\<lparr>command_queue := []\<rparr>)"

subsection \<open>\<^verbatim>\<open>send_command\<close>\<close>

text \<open>\<^verbatim>\<open>String(arg)\<close>.\<close>

fun arg_String :: "arg \<Rightarrow> string" where
  "arg_String ANull = ''null''"
| "arg_String AUndefined = ''undefined''"
| "arg_String (ANum i) = string_of_int i"
| "arg_String (AStr s) = s"
| "arg_String (ABuf b) = b"
| "arg_String (AArr xs) =
     join '','' (map (\<lambda>x. if x = ANull \<or> x = AUndefined then [] else arg_String x) xs)"
| "arg_String (AFun k src) = src"

fun is_AFun :: "arg \<Rightarrow> bool" where
  "is_AFun (AFun k src) = True"
| "is_AFun a = False"

fun is_AArr :: "arg \<Rightarrow> bool" where
  "is_AArr (AArr xs) = True"
| "is_AArr a = False"

fun is_ABuf :: "arg \<Rightarrow> bool" where
  "is_ABuf (ABuf b) = True"
| "is_ABuf a = False"

fun callback_of_arg :: "arg \<Rightarrow> callback" where
  "callback_of_arg (AFun k src) = CbFunction k"
| "callback_of_arg a = CbUndefined"

fun elements :: "arg \<Rightarrow> arg list" where
  "elements (AArr xs) = xs"
| "elements a = []"

text \<open>What \<^verbatim>\<open>send_command\<close> returns: \<^verbatim>\<open>true\<close>, \<^verbatim>\<open>false\<close>, \<^verbatim>\<open>undefined\<close> (a bare
  \<^verbatim>\<open>return\<close>), or whatever the callback returned (\<^verbatim>\<open>return callback && callback(err)\<close>).\<close>

datatype retval = RetBool bool | RetUndefined | RetCallback

text \<open>The keys of \<^verbatim>\<open>subscription_set\<close>: \<^verbatim>\<open>set[key] = true\<close> and \<^verbatim>\<open>delete set[key]\<close>.\<close>

definition set_key :: "string \<Rightarrow> string list \<Rightarrow> string list" where
  "set_key key keys = (if key \<in> set keys then keys else keys @ [key])"

definition delete_key :: "string \<Rightarrow> string list \<Rightarrow> string list" where
  "delete_key key keys = filter (\<lambda>k. k \<noteq> key) keys"

definition pub_sub_command :: "command_obj \<Rightarrow> client \<Rightarrow> command_obj \<times> client" where
  "pub_sub_command command_obj c =
     (let c1 = c\<lparr>pub_sub_mode := True\<rparr>;
          command_obj1 = command_obj\<lparr>sub_command := True\<rparr>;
          cmd = command command_obj1;
          as = args command_obj1
      in if cmd = ''subscribe'' \<or> cmd = ''psubscribe'' then
           (let key = (if cmd = ''subscribe'' then ''sub'' else ''psub'')
            in (command_obj1,
                c1\<lparr>subscription_set :=
                      foldl (\<lambda>keys a. set_key (key @ '' '' @ arg_String a) keys) (subscription_set c1) as\<rparr>))
         else
           (let key = (if cmd = ''unsubscribe'' then ''sub'' else ''psub'')
            in (command_obj1,
                c1\<lparr>subscription_set :=
                      foldl (\<lambda>keys a. delete_key (key @ '' '' @ arg_String a) keys) (subscription_set c1) as\<rparr>)))"

text \<open>\<^verbatim>\<open>buffered_writes += !stream.write(data)\<close>.\<close>

definition write_counted :: "chunk \<Rightarrow> nat \<times> client \<Rightarrow> nat \<times> client" where
  "write_counted data bc =
     (let r = stream_write data (stream (snd bc))
      in (fst bc + (if fst r then 0 else 1), (snd bc)\<lparr>stream := snd r\<rparr>))"

definition command_header :: "string \<Rightarrow> nat \<Rightarrow> string" where
  "command_header cmd elem_count =
     ''*'' @ string_of_nat elem_count @ crlf @ ''$'' @ string_of_nat (js_length cmd) @ crlf @ cmd @ crlf"

definition bulk_string :: "string \<Rightarrow> string" where
  "bulk_string s = ''$'' @ string_of_nat (byteLength s) @ crlf @ s @ crlf"

text \<open>The writes of one argument when some argument is a \<^verbatim>\<open>Buffer\<close>.\<close>

definition write_buffer_arg :: "arg \<Rightarrow> nat \<times> client \<Rightarrow> nat \<times> client" where
  "write_buffer_arg a bc =
     (case a of
        ABuf b \<Rightarrow>
          (if length b = 0 then write_counted (WStr (''$0'' @ crlf @ crlf)) bc
           else write_counted (WStr crlf)
                  (write_counted (WBuf b)
                    (write_counted (WStr (''$'' @ string_of_nat (length b) @ crlf)) bc)))
      | _ \<Rightarrow> write_counted (WStr (bulk_string (arg_String a))) bc)"

text \<open>The end of \<^verbatim>\<open>send_command\<close>, from \<^verbatim>\<open>this.command_queue.push(command_obj)\<close> on.\<close>

definition send_command_write :: "command_obj \<Rightarrow> client \<Rightarrow> retval \<times> client" where
  "send_command_write command_obj c =
     (let c1 = c\<lparr>command_queue := queue_push command_obj (command_queue c),
                 commands_sent := commands_sent c + 1\<rparr>;
          as = args command_obj;
          elem_count = length as + 1;
          command_str = command_header (command command_obj) elem_count;
          bc = (if \<not> buffer_args command_obj
                then write_counted (WStr (command_str @ concat (map (\<lambda>a. bulk_string (arg_String a)) as))) (0, c1)
                else foldl (\<lambda>bc a. write_buffer_arg a bc) (write_counted (WStr command_str) (0, c1)) as);
          buffered_writes = fst bc;
          c2 = snd bc;
          c3 = (if buffered_writes \<noteq> 0 \<or> length (command_queue c2) \<ge> command_queue_high_water c2
                then c2\<lparr>should_buffer := True\<rparr> else c2)
      in (RetBool (\<not> should_buffer c3), c3))"

text \<open>The first lines of \<^verbatim>\<open>send_command(command, args, callback)\<close>, where \<open>None\<close> is
  \<^verbatim>\<open>args === undefined\<close>: a function at the end of \<^verbatim>\<open>args\<close> is taken as the callback when
  none was given, and the last argument of \<^verbatim>\<open>sadd\<close> and \<^verbatim>\<open>srem\<close> is expanded when it is
  an array. \<^verbatim>\<open>process.domain\<close> is taken to be unset.\<close>

definition normal_callback :: "arg list option \<Rightarrow> callback \<Rightarrow> callback" where
  "normal_callback args0 callback0 =
     (case args0 of
        None \<Rightarrow> callback0
      | Some as \<Rightarrow>
          if \<not> is_function callback0 \<and> as \<noteq> [] \<and> is_AFun (last as)
          then callback_of_arg (last as) else callback0)"

definition normal_args :: "string \<Rightarrow> arg list option \<Rightarrow> callback \<Rightarrow> arg list" where
  "normal_args cmd args0 callback0 =
     (let as1 = (case args0 of
                   None \<Rightarrow> []
                 | Some as \<Rightarrow>
                     if \<not> is_function callback0 \<and> as \<noteq> [] \<and> is_AFun (last as)
                     then butlast as else as)
      in if (cmd = ''sadd'' \<or> cmd = ''srem'') \<and> length as1 > 0 \<and> is_AArr (last as1)
         then butlast as1 @ elements (last as1) else as1)"

text \<open>The command record \<^verbatim>\<open>send_command\<close> makes, \<^verbatim>\<open>buffer_args\<close> telling whether some
  argument is a \<^verbatim>\<open>Buffer\<close>.\<close>

definition new_command :: "string \<Rightarrow> arg list option \<Rightarrow> callback \<Rightarrow> command_obj" where
  "new_command cmd args0 callback0 =
     Command cmd (normal_args cmd args0 callback0) False
       (\<exists>a \<in> set (normal_args cmd args0 callback0). is_ABuf a) (normal_callback args0 callback0)"

definition send_command :: "string \<Rightarrow> arg list option \<Rightarrow> callback \<Rightarrow> client \<Rightarrow> retval \<times> client" where
  "send_command cmd args0 callback0 c =
     (let cb = normal_callback args0 callback0;
          as = normal_args cmd args0 callback0
      in if (cmd = ''set'' \<or> cmd = ''setex'') \<and> length as = 0 then (RetUndefined, c)
         else if (cmd = ''set'' \<or> cmd = ''setex'') \<and> (last as = AUndefined \<or> last as = ANull) then
           (let err = JsError (''send_command: '' @ cmd @ '' value must not be undefined or null'') None
            in if is_function cb then (RetCallback, invoke_callback cb (Some err) RUndefined c)
               else (RetUndefined, emit (EError err) c))
         else
           (let command_obj = new_command cmd args0 callback0
            in if (\<not> ready c \<and> \<not> send_anyway c) \<or> \<not> writable (stream c) then
                 (if enable_offline_queue c then
                    (RetBool False,
                     c\<lparr>offline_queue := queue_push command_obj (offline_queue c), should_buffer := True\<rparr>)
                  else
                    (let not_writeable_error =
                           JsError ''send_command: stream not writeable. enable_offline_queue is false'' None
                     in if is_function (callback command_obj)
                        then (RetBool False,
                              invoke_callback (callback command_obj) (Some not_writeable_error) RUndefined c)
                        else (RetUndefined, emit (EError not_writeable_error) c)))
               else if cmd = ''subscribe'' \<or> cmd = ''psubscribe'' \<or> cmd = ''unsubscribe''
                       \<or> cmd = ''punsubscribe'' then
                 (let pc = pub_sub_command command_obj c in send_command_write (fst pc) (snd pc))
               else if cmd = ''monitor'' then send_command_write command_obj (c\<lparr>monitoring := True\<rparr>)
               else if cmd = ''quit'' then send_command_write command_obj (c\<lparr>closing := True\<rparr>)
               else if pub_sub_mode c = True then
                 (RetUndefined,
                  emit (EError (JsError ''Connection in subscriber mode, only subscriber commands may be used'' None)) c)
               else send_command_write command_obj c))"

subsection \<open>\<^verbatim>\<open>return_error\<close> and \<^verbatim>\<open>return_reply\<close>\<close>

text \<open>Both run inside the parser, called from \<^verbatim>\<open>on_data\<close>; an exception thrown in them
  leaves the client as it was when thrown. The result is the exception, if any, and
  the client.\<close>

text \<open>The two tests after the pending queue was shifted, common to both functions:
  \<^verbatim>\<open>idle\<close> when the queue is empty outside pub/sub mode, \<^verbatim>\<open>drain\<close> when \<^verbatim>\<open>should_buffer\<close>
  is set and the queue is at or below the low-water mark.\<close>

definition queue_events :: "client \<Rightarrow> client" where
  "queue_events c =
     (let queue_len = length (command_queue c);
          c1 = (if pub_sub_mode c = False \<and> queue_len = 0
                then emit EIdle (c\<lparr>command_queue := []\<rparr>) else c)
      in if should_buffer c1 \<and> queue_len \<le> command_queue_low_water c1
         then (emit EDrain c1)\<lparr>should_buffer := False\<rparr> else c1)"

definition return_error :: "jserror \<Rightarrow> client \<Rightarrow> exception option \<times> client" where
  "return_error err c =
     (let sh = queue_shift (command_queue c);
          c1 = c\<lparr>command_queue := snd sh\<rparr>
      in case fst sh of
           None \<Rightarrow> (Some TypeError, c1)
         | Some command_obj \<Rightarrow>
             (let err1 = JsError (message err) (Some (toUpperCase (command command_obj)));
                  c2 = queue_events c1
              in if is_function (callback command_obj)
                 then (None, invoke_callback (callback command_obj) (Some err1) RUndefined c2)
                 else (None, emit (EError err1) c2)))"

text \<open>\<^verbatim>\<open>String(reply)\<close>, for the message of an error.\<close>

definition reply_String :: "reply \<Rightarrow> string" where
  "reply_String reply =
     (case reply of
        RNull \<Rightarrow> ''null''
      | RUndefined \<Rightarrow> ''undefined''
      | _ \<Rightarrow> (case reply_toString reply of Some s \<Rightarrow> s | None \<Rightarrow> []))"

text \<open>The value the callback of an ordinary command gets: the strings of the reply
  under \<^verbatim>\<open>detect_buffers\<close> for a command without \<^verbatim>\<open>Buffer\<close> arguments, and the object of
  the reply for \<^verbatim>\<open>hgetall\<close> when the reply is truthy.\<close>

definition reply_for_callback :: "client \<Rightarrow> command_obj \<Rightarrow> reply \<Rightarrow> exception + reply" where
  "reply_for_callback c command_obj reply =
     (let reply1 = (if detect_buffers c \<and> buffer_args command_obj = False
                        \<and> ''exec'' \<noteq> command command_obj
                    then reply_to_strings reply else reply)
      in if truthy reply1 \<and> ''hgetall'' = command command_obj
         then reply_to_object reply1 else Inr reply1)"

text \<open>The branch of \<^verbatim>\<open>return_reply\<close> taken in pub/sub mode or for a subscription
  command.\<close>

definition pub_sub_reply :: "command_obj option \<Rightarrow> reply \<Rightarrow> client \<Rightarrow> exception option \<times> client" where
  "pub_sub_reply command_obj reply c =
     (case reply of
        RArr xs \<Rightarrow>
          (case reply_toString (reply_at xs 0) of
             None \<Rightarrow> (Some TypeError, c)
           | Some type \<Rightarrow>
               if type = ''message'' then
                 (case reply_toString (reply_at xs 1) of
                    None \<Rightarrow> (Some TypeError, c)
                  | Some channel \<Rightarrow> (None, emit (EMessage channel (reply_at xs 2)) c))
               else if type = ''pmessage'' then
                 (case reply_toString (reply_at xs 1) of
                    None \<Rightarrow> (Some TypeError, c)
                  | Some pattern \<Rightarrow>
                      (case reply_toString (reply_at xs 2) of
                         None \<Rightarrow> (Some TypeError, c)
                       | Some channel \<Rightarrow> (None, emit (EPMessage pattern channel (reply_at xs 3)) c)))
               else if type = ''subscribe'' \<or> type = ''unsubscribe'' \<or> type = ''psubscribe''
                       \<or> type = ''punsubscribe'' then
                 (let c1 = c\<lparr>pub_sub_mode := (reply_at xs 2 \<noteq> RInt 0)\<rparr>
                  in case (if reply_at xs 1 = RNull then Some RNull
                           else map_option RStr (reply_toString (reply_at xs 1))) of
                       None \<Rightarrow> (Some TypeError, c1)
                     | Some reply1String \<Rightarrow>
                         (let c2 = (case command_obj of
                                      None \<Rightarrow> c1
                                    | Some co \<Rightarrow>
                                        if is_function (callback co)
                                        then invoke_callback (callback co) None reply1String c1
                                        else c1)
                          in (None, emit (ESubscription type reply1String (reply_at xs 2)) c2)))
               else
                 (None, emit (EError (JsError (''subscriptions are active but got unknown reply type '' @ type) None)) c))
      | _ \<Rightarrow>
          if \<not> closing c
          then (None, emit (EError (JsError (''subscriptions are active but got an invalid reply: ''
                                              @ reply_String reply) None)) c)
          else (None, c))"

text \<open>The branch taken when monitoring: the reply is cut at its first space and at its
  quotes with \<^verbatim>\<open>indexOf\<close>, \<^verbatim>\<open>slice\<close> and \<^verbatim>\<open>split\<close>, which only a string has.\<close>

definition monitor_reply :: "reply \<Rightarrow> client \<Rightarrow> exception option \<times> client" where
  "monitor_reply reply c =
     (case reply of
        RStr line \<Rightarrow> (None, emit (EMonitor line) c)
      | _ \<Rightarrow> (Some TypeError, c))"

text \<open>The first lines of \<^verbatim>\<open>return_reply\<close>: \<^verbatim>\<open>type\<close> is set, in pub/sub mode, for an array
  that is not empty and whose first element is truthy, and the reply is a message pushed
  by the server when \<^verbatim>\<open>type\<close> is \<^verbatim>\<open>message\<close> or \<^verbatim>\<open>pmessage\<close>.\<close>

definition message_type :: "reply \<Rightarrow> client \<Rightarrow> string option" where
  "message_type reply c =
     (case reply of
        RArr xs \<Rightarrow>
          (if pub_sub_mode c \<and> length xs > 0 \<and> truthy (reply_at xs 0)
           then reply_toString (reply_at xs 0) else None)
      | _ \<Rightarrow> None)"

definition is_push :: "reply \<Rightarrow> client \<Rightarrow> bool" where
  "is_push reply c \<longleftrightarrow>
     pub_sub_mode c
     \<and> (message_type reply c = Some ''message'' \<or> message_type reply c = Some ''pmessage'')"

definition return_reply :: "reply \<Rightarrow> client \<Rightarrow> exception option \<times> client" where
  "return_reply reply c =
     (let sh = (if is_push reply c
                then (None, command_queue c)
                else queue_shift (command_queue c));
          command_obj = fst sh;
          c1 = queue_events (c\<lparr>command_queue := snd sh\<rparr>)
      in if command_obj \<noteq> None \<and> \<not> sub_command (the command_obj) then
           (if is_function (callback (the command_obj)) then
              (case reply_for_callback c1 (the command_obj) reply of
                 Inl e \<Rightarrow> (Some e, c1)
               | Inr reply1 \<Rightarrow> (None, invoke_callback (callback (the command_obj)) None reply1 c1))
            else (None, c1))
         else if pub_sub_mode c1 \<or> (command_obj \<noteq> None \<and> sub_command (the command_obj)) then
           pub_sub_reply command_obj reply c1
         else if monitoring c1 then monitor_reply reply c1
         else (None, emit (EError (JsError ''node_redis command queue state error. If you can reproduce this, please report it.'' None)) c1))"

text \<open>Modelled from the spec: the reply parser (\<^verbatim>\<open>./lib/parser\<close>), which decodes a chunk
  into frames and calls \<^verbatim>\<open>send_error\<close> for an error frame and \<^verbatim>\<open>send_reply\<close> for any other
  one, in the order of the frames.\<close>

datatype frame = ErrorFrame string | ReplyFrame reply

fun deliver :: "frame \<Rightarrow> client \<Rightarrow> exception option \<times> client" where
  "deliver (ErrorFrame msg) c = return_error (JsError msg None) c"
| "deliver (ReplyFrame reply) c = return_reply reply c"

text \<open>\<^verbatim>\<open>on_data\<close> for a chunk holding the frames \<open>frames\<close>: an exception thrown while the
  parser runs is caught and emitted as an \<^verbatim>\<open>error\<close> event, and ends the chunk.\<close>

fun on_data :: "frame list \<Rightarrow> client \<Rightarrow> client" where
  "on_data [] c = c"
| "on_data (f # frames) c =
     (case deliver f c of
        (None, c1) \<Rightarrow> on_data frames c1
      | (Some e, c1) \<Rightarrow> emit (EThrown e) c1)"

subsection \<open>Ready, offline queue, drain\<close>

text \<open>The loop of \<^verbatim>\<open>send_offline_queue\<close>:
  \<^verbatim>\<open>while (this.offline_queue.length > 0) { command_obj = this.offline_queue.shift();
     buffered_writes += !this.send_command(command_obj.command, command_obj.args, command_obj.callback); }\<close>
  \<^verbatim>\<open>send_command\<close> may put the command back on the offline queue, so the loop need not
  end: \<open>None\<close> is the loop that runs forever.\<close>

partial_function (option) send_offline_loop :: "nat \<Rightarrow> client \<Rightarrow> (nat \<times> client) option" where
  "send_offline_loop buffered_writes c =
     (case offline_queue c of
        [] \<Rightarrow> Some (buffered_writes, c)
      | command_obj # q \<Rightarrow>
          (let rc = send_command (command command_obj) (Some (args command_obj)) (callback command_obj)
                      (c\<lparr>offline_queue := q\<rparr>)
           in send_offline_loop (buffered_writes + (if fst rc = RetBool True then 0 else 1)) (snd rc)))"

definition send_offline_queue :: "client \<Rightarrow> client option" where
  "send_offline_queue c =
     (case send_offline_loop 0 c of
        None \<Rightarrow> None
      | Some (buffered_writes, c1) \<Rightarrow>
          (let c2 = c1\<lparr>offline_queue := []\<rparr>
           in if buffered_writes = 0 then Some (emit EDrain (c2\<lparr>should_buffer := False\<rparr>))
              else Some c2))"

text \<open>\<^verbatim>\<open>parts[i]\<close> of \<^verbatim>\<open>key.split(" ")\<close>, \<^verbatim>\<open>undefined\<close> out of range.\<close>

definition part_at :: "string list \<Rightarrow> nat \<Rightarrow> arg" where
  "part_at parts i = (if i < length parts then AStr (parts ! i) else AUndefined)"

text \<open>The \<^verbatim>\<open>forEach\<close> of \<^verbatim>\<open>on_ready\<close> over the keys of \<^verbatim>\<open>subscription_set\<close>, for the closure
  number \<open>n\<close>.\<close>

fun resubscribe :: "nat \<Rightarrow> string list \<Rightarrow> client \<Rightarrow> client" where
  "resubscribe n [] c = c"
| "resubscribe n (key # keys) c =
     (let parts = split_char CHR '' '' key;
          c1 = c\<lparr>callback_count := (callback_count c)(n := callback_count c n + 1)\<rparr>
      in resubscribe n keys
           (snd (send_command (arg_String (part_at parts 0) @ ''scribe'') (Some [part_at parts 1])
                   (CbResub n) c1)))"

definition on_ready :: "client \<Rightarrow> client option" where
  "on_ready c =
     (let c1 = c\<lparr>ready := True\<rparr>;
          c2 = (case old_state c1 of
                  None \<Rightarrow> c1
                | Some st \<Rightarrow>
                    c1\<lparr>monitoring := saved_monitoring st,
                       pub_sub_mode := saved_pub_sub_mode st,
                       selected_db := saved_selected_db st,
                       old_state := None\<rparr>);
          c3 = (if selected_db c2 \<noteq> ANull then
                  (let pub_sub_mode0 = pub_sub_mode c2
                   in (snd (send_command ''select'' (Some [selected_db c2]) CbUndefined
                              (c2\<lparr>pub_sub_mode := False\<rparr>)))\<lparr>pub_sub_mode := pub_sub_mode0\<rparr>)
                else c2)
      in if pub_sub_mode c3 = True then
           (let n = closures c3
            in Some (resubscribe n (subscription_set c3)
                       (c3\<lparr>closures := n + 1, callback_count := (callback_count c3)(n := 0)\<rparr>)))
         else if monitoring c3 then
           Some (emit EReady (snd (send_command ''monitor'' (Some []) CbUndefined c3)))
         else map_option (emit EReady) (send_offline_queue c3))"

text \<open>The listener of the transport's \<^verbatim>\<open>drain\<close> event.\<close>

definition stream_drain :: "client \<Rightarrow> client" where
  "stream_drain c = emit EDrain (c\<lparr>should_buffer := False\<rparr>)"

subsection \<open>Losing the connection\<close>

definition initialize_retry_vars :: "client \<Rightarrow> client" where
  "initialize_retry_vars c =
     c\<lparr>retry_timer := None, retry_totaltime := 0, retry_delay := 200, attempts := 1\<rparr>"

text \<open>\<^verbatim>\<open>connection_gone(why)\<close>, in three parts. The first part, up to the call of
  \<^verbatim>\<open>flush_and_error\<close>: the flags are cleared, the modal state is saved in \<^verbatim>\<open>old_state\<close>
  unless one is saved already, and \<^verbatim>\<open>end\<close> is emitted once.\<close>

definition before_flush :: "client \<Rightarrow> client" where
  "before_flush c =
     (let c1 = c\<lparr>connected := False, ready := False\<rparr>;
          c2 = (if old_state c1 = None then
                  c1\<lparr>old_state := Some \<lparr>saved_monitoring = monitoring c1,
                                         saved_pub_sub_mode = pub_sub_mode c1,
                                         saved_selected_db = selected_db c1\<rparr>,
                     monitoring := False, pub_sub_mode := False, selected_db := ANull\<rparr>
                else c1)
      in if \<not> emitted_end c2 then (emit EEnd c2)\<lparr>emitted_end := True\<rparr> else c2)"

text \<open>The last part, from \<^verbatim>\<open>var nextDelay\<close> on.
  \<^verbatim>\<open>Math.floor(this.retry_delay * this.retry_backoff)\<close> is the floor of \<open>17/10\<close> of the
  delay: for a whole delay below \<open>2^50\<close> the rounding of the product in double precision
  does not change the floor.\<close>

definition schedule_retry :: "client \<Rightarrow> client" where
  "schedule_retry c4 =
     (let nextDelay = (retry_delay c4 * 17) div 10;
          c5 = (case retry_max_delay c4 of
                  None \<Rightarrow> c4\<lparr>retry_delay := nextDelay\<rparr>
                | Some m \<Rightarrow>
                    if nextDelay > m then c4\<lparr>retry_delay := m\<rparr>
                    else c4\<lparr>retry_delay := nextDelay\<rparr>)
      in if (case max_attempts c5 of None \<Rightarrow> False | Some m \<Rightarrow> m \<noteq> 0 \<and> attempts c5 \<ge> m)
         then emit (EError (JsError ''Redis connection in broken state: maximum connection attempts exceeded.'' None))
                (c5\<lparr>retry_timer := None\<rparr>)
         else
           (let c6 = c5\<lparr>attempts := attempts c5 + 1\<rparr>;
                c7 = emit (EReconnecting (retry_delay c6) (attempts c6)) c6
            in c7\<lparr>retry_timer := Some (retry_delay c7)\<rparr>))"

definition connection_gone :: "string \<Rightarrow> client \<Rightarrow> client" where
  "connection_gone why c =
     (if retry_timer c \<noteq> None then c
      else
        (let c4 = flush_and_error (''Redis connection gone from '' @ why @ '' event.'') (before_flush c)
         in if closing c4 then c4\<lparr>retry_timer := None\<rparr>
            else schedule_retry c4))"

text \<open>The function \<^verbatim>\<open>connection_gone\<close> gives to \<^verbatim>\<open>setTimeout\<close>, run when the retry timer
  fires; \<open>new_stream\<close> is what \<^verbatim>\<open>net.createConnection\<close> returns. In the branch of the
  exceeded \<^verbatim>\<open>connect_timeout\<close> the function calls \<^verbatim>\<open>this.emit\<close>, and \<^verbatim>\<open>this\<close> is the timer,
  which has no \<^verbatim>\<open>emit\<close>: a \<^verbatim>\<open>TypeError\<close>.\<close>

definition retry_timer_fired :: "stream \<Rightarrow> client \<Rightarrow> exception option \<times> client" where
  "retry_timer_fired new_stream c =
     (let c1 = c\<lparr>retry_totaltime := retry_totaltime c + retry_delay c\<rparr>
      in if connect_timeout c1 \<noteq> 0 \<and> retry_totaltime c1 \<ge> connect_timeout c1
         then (Some TypeError, c1\<lparr>retry_timer := None\<rparr>)
         else (None, c1\<lparr>stream := new_stream, retry_timer := None\<rparr>))"

subsection \<open>\<^verbatim>\<open>select\<close>\<close>

text \<open>\<^verbatim>\<open>select(db, callback)\<close>; \<open>user\<close> is the user's function when \<^verbatim>\<open>callback\<close> is one.\<close>

definition select :: "arg \<Rightarrow> nat option \<Rightarrow> client \<Rightarrow> client" where
  "select db user c = snd (send_command ''select'' (Some [db]) (CbSelect db user) c)"

subsection \<open>Construction\<close>

text \<open>The options the constructor reads, \<open>None\<close> for an option that is not given.\<close>

record options =
  detect_buffers_opt :: bool
  command_queue_high_water_opt :: "nat option"
  command_queue_low_water_opt :: "nat option"
  max_attempts_opt :: "nat option"
  connect_timeout_opt :: "nat option"
  enable_offline_queue_opt :: "bool option"
  retry_max_delay_opt :: "nat option"

definition no_options :: options where
  "no_options =
     \<lparr>detect_buffers_opt = False, command_queue_high_water_opt = None,
      command_queue_low_water_opt = None, max_attempts_opt = None, connect_timeout_opt = None,
      enable_offline_queue_opt = None, retry_max_delay_opt = None\<rparr>"

text \<open>\<^verbatim>\<open>x || d\<close> for an optional number: \<open>d\<close> when \<open>x\<close> is missing or zero.\<close>

definition or_default :: "nat option \<Rightarrow> nat \<Rightarrow> nat" where
  "or_default x d = (case x of None \<Rightarrow> d | Some n \<Rightarrow> if n = 0 then d else n)"

text \<open>\<^verbatim>\<open>x && x > 0\<close> for an optional number: the number when it is positive.\<close>

definition positive_option :: "nat option \<Rightarrow> nat option" where
  "positive_option x = (case x of None \<Rightarrow> None | Some n \<Rightarrow> if n > 0 then Some n else None)"

definition RedisClient :: "stream \<Rightarrow> options \<Rightarrow> client" where
  "RedisClient st opts =
     initialize_retry_vars
       \<lparr>stream = st,
        detect_buffers = detect_buffers_opt opts,
        connected = False,
        ready = False,
        send_anyway = False,
        should_buffer = False,
        command_queue_high_water = or_default (command_queue_high_water_opt opts) 1000,
        command_queue_low_water = or_default (command_queue_low_water_opt opts) 0,
        max_attempts = positive_option (max_attempts_opt opts),
        command_queue = [],
        offline_queue = [],
        commands_sent = 0,
        connect_timeout = or_default (connect_timeout_opt opts) 86400000,
        enable_offline_queue = (enable_offline_queue_opt opts \<noteq> Some False),
        retry_max_delay = positive_option (retry_max_delay_opt opts),
        retry_timer = None,
        retry_totaltime = 0,
        retry_delay = 0,
        attempts = 0,
        pub_sub_mode = False,
        subscription_set = [],
        monitoring = False,
        closing = False,
        selected_db = ANull,
        old_state = None,
        emitted_end = False,
        callback_count = (\<lambda>n. 0),
        closures = 0,
        events = []\<rparr>"

text \<open>A transport that is writable and never reports a buffered write, and a client on
  it that is ready: the state after \<^verbatim>\<open>on_connect\<close> and \<^verbatim>\<open>on_ready\<close> on a first connection.\<close>

definition open_stream :: stream where
  "open_stream = \<lparr>writable = True, written = [], write_flushed = (\<lambda>i. True)\<rparr>"

definition ready_client :: "options \<Rightarrow> client" where
  "ready_client opts = (RedisClient open_stream opts)\<lparr>connected := True, ready := True\<rparr>"

subsection \<open>The reply of \<^verbatim>\<open>hgetall\<close> as the specification describes it\<close>






subsection \<open>Notions for the claims about a lost connection\<close>

fun is_call :: "event \<Rightarrow> bool" where
  "is_call (ECall k err res) = True"
| "is_call e = False"

fun is_reconnecting :: "event \<Rightarrow> bool" where
  "is_reconnecting (EReconnecting d a) = True"
| "is_reconnecting e = False"

text \<open>The calls of callbacks in the trace: of a user's function, and of a closure of the
  client called as the callback of a command record.\<close>

fun is_invocation :: "event \<Rightarrow> bool" where
  "is_invocation (ECall k err res) = True"
| "is_invocation (EClosure cb err res) = True"
| "is_invocation e = False"

text \<open>The calls that one call \<open>cb(error)\<close> of the callback of a command record consists
  of: the call of the user's function; or the call of the wrapper of \<^verbatim>\<open>select\<close>, which
  passes the error on to the user's function if there is one; or the call of the
  counting callback of \<^verbatim>\<open>on_ready\<close>.\<close>

fun invocations :: "jserror \<Rightarrow> callback \<Rightarrow> event list" where
  "invocations error CbUndefined = []"
| "invocations error (CbFunction k) = [ECall k (Some error) RUndefined]"
| "invocations error (CbSelect db user) =
     EClosure (CbSelect db user) (Some error) RUndefined
     # (case user of Some k \<Rightarrow> [ECall k (Some error) RUndefined] | None \<Rightarrow> [])"
| "invocations error (CbResub n) = [EClosure (CbResub n) (Some error) RUndefined]"

text \<open>One call with \<open>error\<close> for each of the commands \<open>q\<close> whose callback is a function, in
  the order of \<open>q\<close>.\<close>

definition error_calls :: "jserror \<Rightarrow> command_obj list \<Rightarrow> event list" where
  "error_calls error q = concat (map (\<lambda>co. invocations error (callback co)) q)"

text \<open>The client without the two queues, the trace and the counters of \<^verbatim>\<open>on_ready\<close>:
  what \<^verbatim>\<open>flush_and_error\<close> leaves alone.\<close>

definition unflushed :: "client \<Rightarrow> client" where
  "unflushed c = c\<lparr>offline_queue := [], command_queue := [], events := [], callback_count := (\<lambda>n. 0)\<rparr>"

text \<open>The delay \<^verbatim>\<open>connection_gone\<close> computes from the delay \<open>d\<close>.\<close>

definition next_delay :: "nat option \<Rightarrow> nat \<Rightarrow> nat" where
  "next_delay rmd d =
     (case rmd of
        None \<Rightarrow> (d * 17) div 10
      | Some m \<Rightarrow> if (d * 17) div 10 > m then m else (d * 17) div 10)"

text \<open>The delays as the code computes them: 200 ms to start with, and each delay the floor
  of 1.7 times the one before, capped by \<open>retry_max_delay\<close>.\<close>

primrec backoff_delay :: "nat option \<Rightarrow> nat \<Rightarrow> nat" where
  "backoff_delay rmd 0 = 200"
| "backoff_delay rmd (Suc k) = next_delay rmd (backoff_delay rmd k)"

text \<open>The sum of the first \<open>n\<close> reconnect delays.\<close>

primrec total_delay :: "nat option \<Rightarrow> nat \<Rightarrow> nat" where
  "total_delay rmd 0 = 0"
| "total_delay rmd (Suc n) = total_delay rmd n + backoff_delay rmd (Suc n)"

text \<open>The delay of the claim: \<open>min(200 * 1.7^(k-1), retry_max_delay)\<close>, floored.\<close>

definition spec_delay :: "nat option \<Rightarrow> nat \<Rightarrow> int" where
  "spec_delay rmd k =
     (case rmd of
        None \<Rightarrow> \<lfloor>200 * (17 / 10 :: real) ^ (k - 1)\<rfloor>
      | Some m \<Rightarrow> \<lfloor>min (200 * (17 / 10 :: real) ^ (k - 1)) (real m)\<rfloor>)"

text \<open>The connection is lost, and then \<open>n\<close> times the retry timer fires, the new
  transport \<open>new_stream\<close> is made and the connection is lost again.\<close>

primrec reconnect_failures :: "string \<Rightarrow> stream \<Rightarrow> nat \<Rightarrow> client \<Rightarrow> client" where
  "reconnect_failures why new_stream 0 c = connection_gone why c"
| "reconnect_failures why new_stream (Suc n) c =
     connection_gone why (snd (retry_timer_fired new_stream (reconnect_failures why new_stream n c)))"




section \<open>Basic facts\<close>

lemma emit_fields [simp]:
  "events (emit e c) = events c @ [e]"
  "command_queue (emit e c) = command_queue c"
  "offline_queue (emit e c) = offline_queue c"
  "should_buffer (emit e c) = should_buffer c"
  "pub_sub_mode (emit e c) = pub_sub_mode c"
  "selected_db (emit e c) = selected_db c"
  "stream (emit e c) = stream c"
  "callback_count (emit e c) = callback_count c"
  "closing (emit e c) = closing c"
  "monitoring (emit e c) = monitoring c"
  "detect_buffers (emit e c) = detect_buffers c"
  "command_queue_low_water (emit e c) = command_queue_low_water c"
  "command_queue_high_water (emit e c) = command_queue_high_water c"
  by (simp_all add: emit_def)

lemma queue_events_command_queue [simp]:
  "command_queue (queue_events c) = command_queue c"
  by (auto simp: queue_events_def Let_def)

lemma toUpperCase_get: "toUpperCase ''get'' = ''GET''"
  by code_simp

text \<open>A pending \<^verbatim>\<open>get foo\<close> with the user's function 0 as callback.\<close>

definition get_foo :: command_obj where
  "get_foo = Command ''get'' [AStr ''foo''] False False (CbFunction 0)"

lemma Command_sel [simp]:
  "command (Command cmd as sub buf cb) = cmd"
  "args (Command cmd as sub buf cb) = as"
  "sub_command (Command cmd as sub buf cb) = sub"
  "buffer_args (Command cmd as sub buf cb) = buf"
  "callback (Command cmd as sub buf cb) = cb"
  by (simp_all add: Command_def)

lemma write_counted_shape:
  "\<exists>st. snd (write_counted d bc) = (snd bc)\<lparr>stream := st\<rparr>"
  by (auto simp: write_counted_def Let_def)

lemma write_buffer_arg_shape:
  "\<exists>st. snd (write_buffer_arg a bc) = (snd bc)\<lparr>stream := st\<rparr>"
  by (cases a) (auto simp: write_buffer_arg_def write_counted_def Let_def)

lemma write_buffer_args_shape:
  "\<exists>st. snd (foldl (\<lambda>bc a. write_buffer_arg a bc) bc as) = (snd bc)\<lparr>stream := st\<rparr>"
proof (induction as arbitrary: bc)
  case Nil
  have "snd bc = (snd bc)\<lparr>stream := stream (snd bc)\<rparr>" by simp
  then show ?case by (metis foldl_Nil)
next
  case (Cons a as)
  obtain st1 where s1: "snd (write_buffer_arg a bc) = (snd bc)\<lparr>stream := st1\<rparr>"
    using write_buffer_arg_shape by blast
  obtain st2 where "snd (foldl (\<lambda>bc a. write_buffer_arg a bc) (write_buffer_arg a bc) as)
      = (snd (write_buffer_arg a bc))\<lparr>stream := st2\<rparr>"
    using Cons.IH by blast
  then show ?case using s1 by auto
qed

lemma send_command_write_shape:
  "\<exists>st sb. snd (send_command_write co c)
     = c\<lparr>command_queue := command_queue c @ [co], commands_sent := commands_sent c + 1,
          stream := st, should_buffer := sb\<rparr>"
proof -
  let ?c1 = "c\<lparr>command_queue := queue_push co (command_queue c), commands_sent := commands_sent c + 1\<rparr>"
  let ?bc = "(if \<not> buffer_args co
                then write_counted (WStr (command_header (command co) (length (args co) + 1) @ concat (map (\<lambda>a. bulk_string (arg_String a)) (args co)))) (0, ?c1)
                else foldl (\<lambda>bc a. write_buffer_arg a bc) (write_counted (WStr (command_header (command co) (length (args co) + 1))) (0, ?c1)) (args co))"
  have "\<exists>st. snd ?bc = ?c1\<lparr>stream := st\<rparr>"
  proof (cases "buffer_args co")
    case False
    then show ?thesis using write_counted_shape [of _ "(0, ?c1)"] by auto
  next
    case True
    obtain st1 where a: "snd (write_counted (WStr (command_header (command co) (length (args co) + 1))) (0, ?c1)) = ?c1\<lparr>stream := st1\<rparr>"
      using write_counted_shape [of _ "(0, ?c1)"] by auto
    obtain st2 where "snd (foldl (\<lambda>bc a. write_buffer_arg a bc) (write_counted (WStr (command_header (command co) (length (args co) + 1))) (0, ?c1)) (args co))
       = (snd (write_counted (WStr (command_header (command co) (length (args co) + 1))) (0, ?c1)))\<lparr>stream := st2\<rparr>"
      using write_buffer_args_shape by blast
    then show ?thesis using True a by auto
  qed
  then obtain st where st: "snd ?bc = ?c1\<lparr>stream := st\<rparr>" by blast
  have "snd (send_command_write co c) =
      (if fst ?bc \<noteq> 0 \<or> length (command_queue (snd ?bc)) \<ge> command_queue_high_water (snd ?bc)
                then (snd ?bc)\<lparr>should_buffer := True\<rparr> else snd ?bc)"
    by (simp add: send_command_write_def Let_def)
  also have "\<dots> = ?c1\<lparr>stream := st, should_buffer := (if fst ?bc \<noteq> 0 \<or> length (command_queue (snd ?bc)) \<ge> command_queue_high_water (snd ?bc) then True else should_buffer c)\<rparr>"
    using st by (simp add: queue_push_def)
  finally show ?thesis by (metis queue_push_def)
qed

lemma send_command_write_fields [simp]:
  "command_queue (snd (send_command_write co c)) = command_queue c @ [co]"
  "commands_sent (snd (send_command_write co c)) = commands_sent c + 1"
  "offline_queue (snd (send_command_write co c)) = offline_queue c"
  "events (snd (send_command_write co c)) = events c"
  "pub_sub_mode (snd (send_command_write co c)) = pub_sub_mode c"
  "selected_db (snd (send_command_write co c)) = selected_db c"
  "callback_count (snd (send_command_write co c)) = callback_count c"
  "closures (snd (send_command_write co c)) = closures c"
  "detect_buffers (snd (send_command_write co c)) = detect_buffers c"
  "monitoring (snd (send_command_write co c)) = monitoring c"
  "closing (snd (send_command_write co c)) = closing c"
  "ready (snd (send_command_write co c)) = ready c"
  "send_anyway (snd (send_command_write co c)) = send_anyway c"
  "subscription_set (snd (send_command_write co c)) = subscription_set c"
  "command_queue_high_water (snd (send_command_write co c)) = command_queue_high_water c"
  "command_queue_low_water (snd (send_command_write co c)) = command_queue_low_water c"
  "enable_offline_queue (snd (send_command_write co c)) = enable_offline_queue c"
  using send_command_write_shape [of co c] by auto

lemma send_command_write_ret:
  "fst (send_command_write co c) = RetBool (\<not> should_buffer (snd (send_command_write co c)))"
  by (simp add: send_command_write_def Let_def)

lemma select_sent:
  assumes "ready c \<or> send_anyway c" "writable (stream c)" "\<not> pub_sub_mode c"
  shows "send_command ''select'' (Some [db]) (CbSelect db user) c
           = send_command_write (Command ''select'' [db] False (is_ABuf db) (CbSelect db user)) c"
  using assms
  by (auto simp: send_command_def new_command_def normal_args_def normal_callback_def Let_def)

lemma queue_events_fields [simp]:
  "selected_db (queue_events c) = selected_db c"
  "pub_sub_mode (queue_events c) = pub_sub_mode c"
  "offline_queue (queue_events c) = offline_queue c"
  "stream (queue_events c) = stream c"
  "callback_count (queue_events c) = callback_count c"
  "detect_buffers (queue_events c) = detect_buffers c"
  "monitoring (queue_events c) = monitoring c"
  "closing (queue_events c) = closing c"
  by (auto simp: queue_events_def Let_def)

lemma ready_client_no_options:
  "ready_client no_options =
     \<lparr>stream = open_stream, detect_buffers = False, connected = True, ready = True,
      send_anyway = False, should_buffer = False, command_queue_high_water = 1000,
      command_queue_low_water = 0, max_attempts = None, command_queue = [], offline_queue = [],
      commands_sent = 0, connect_timeout = 86400000, enable_offline_queue = True,
      retry_max_delay = None, retry_timer = None, retry_totaltime = 0, retry_delay = 200,
      attempts = 1, pub_sub_mode = False, subscription_set = [], monitoring = False,
      closing = False, selected_db = ANull, old_state = None, emitted_end = False,
      callback_count = (\<lambda>n. 0), closures = 0, events = []\<rparr>"
  by (simp add: ready_client_def RedisClient_def initialize_retry_vars_def no_options_def
        or_default_def positive_option_def)

section \<open>Error frames\<close>

text \<open>
  Claim C9. \<^verbatim>\<open>return_error\<close> shifts the pending queue whatever the state of the client
  is, in particular whatever \<open>pub_sub_mode\<close> is, and reads the name of the shifted
  command at once: when the queue holds a command, the head is removed and the error
  that is delivered (to the callback, or as an \<^verbatim>\<open>error\<close> event when there is none)
  carries the upper-cased name of that command as \<open>command_used\<close>; when the queue is
  empty there is no guard, and reading the name of the absent command throws a
  \<^verbatim>\<open>TypeError\<close>. So the throwing branch is excluded only by a queue that holds a
  command whenever an error frame arrives.
\<close>

theorem return_error_pops_head:
  "(command_queue c = command_obj # q \<longrightarrow>
      fst (return_error err c) = None
      \<and> command_queue (snd (return_error err c)) = q
      \<and> (callback command_obj = CbUndefined \<longrightarrow>
           last (events (snd (return_error err c)))
             = EError (JsError (message err) (Some (toUpperCase (command command_obj)))))
      \<and> (\<forall>k. callback command_obj = CbFunction k \<longrightarrow>
           last (events (snd (return_error err c)))
             = ECall k (Some (JsError (message err) (Some (toUpperCase (command command_obj))))) RUndefined))
   \<and> (command_queue c = [] \<longrightarrow> fst (return_error err c) = Some TypeError)"
  by (auto simp: return_error_def queue_shift_def Let_def)

theorem return_error_pops_head_witness:
  "fst (return_error (JsError ''ERR unknown'' None)
          ((ready_client no_options)\<lparr>command_queue := [get_foo], pub_sub_mode := True\<rparr>)) = None
   \<and> command_queue (snd (return_error (JsError ''ERR unknown'' None)
          ((ready_client no_options)\<lparr>command_queue := [get_foo], pub_sub_mode := True\<rparr>))) = []
   \<and> last (events (snd (return_error (JsError ''ERR unknown'' None)
          ((ready_client no_options)\<lparr>command_queue := [get_foo], pub_sub_mode := True\<rparr>))))
        = ECall 0 (Some (JsError ''ERR unknown'' (Some ''GET''))) RUndefined
   \<and> fst (return_error (JsError ''ERR unknown'' None) (ready_client no_options)) = Some TypeError"
  using return_error_pops_head
          [of "(ready_client no_options)\<lparr>command_queue := [get_foo], pub_sub_mode := True\<rparr>"
              get_foo "[]" "JsError ''ERR unknown'' None"]
        return_error_pops_head [of "ready_client no_options" get_foo "[]" "JsError ''ERR unknown'' None"]
  by (simp add: ready_client_def RedisClient_def initialize_retry_vars_def get_foo_def Command_def
        toUpperCase_get)

section \<open>The \<^verbatim>\<open>select\<close> method\<close>

lemma toUpperCase_select: "toUpperCase ''select'' = ''SELECT''"
  by code_simp

text \<open>
  Claim C10. \<^verbatim>\<open>select(db, callback)\<close> on a client that sends the command (ready,
  transport writable, not in pub/sub mode, nothing pending) leaves \<open>selected_db\<close> as it
  is while the command is pending. When the server answers with an error frame,
  \<open>selected_db\<close> is still unchanged and the error, with \<open>command_used\<close> set, goes to the
  user's callback when there is one and is emitted as an \<^verbatim>\<open>error\<close> event otherwise. When
  the server answers with a reply, \<open>selected_db\<close> becomes \<open>db\<close>.
\<close>

theorem select_saves_db_on_success_only:
  assumes "ready c \<or> send_anyway c" and "writable (stream c)" and "\<not> pub_sub_mode c"
    and "command_queue c = []"
  shows "selected_db (select db user c) = selected_db c
     \<and> selected_db (snd (return_error err (select db user c))) = selected_db c
     \<and> (\<forall>k. user = Some k \<longrightarrow>
            last (events (snd (return_error err (select db user c))))
              = ECall k (Some (JsError (message err) (Some (toUpperCase ''select'')))) RUndefined)
     \<and> (user = None \<longrightarrow>
            last (events (snd (return_error err (select db user c))))
              = EError (JsError (message err) (Some (toUpperCase ''select''))))
     \<and> selected_db (snd (return_reply reply (select db user c))) = db"
proof -
  let ?co = "Command ''select'' [db] False (is_ABuf db) (CbSelect db user)"
  have sel: "select db user c = snd (send_command_write ?co c)"
    using assms by (simp add: select_def select_sent)
  have q: "command_queue (select db user c) = [?co]"
    using assms by (simp add: sel)
  have ps: "\<not> pub_sub_mode (select db user c)"
    using assms by (simp add: sel)
  have a: "selected_db (select db user c) = selected_db c"
    by (simp add: sel)
  have e: "snd (return_error err (select db user c))
      = invoke_callback (CbSelect db user) (Some (JsError (message err) (Some (toUpperCase ''select''))))
          RUndefined (queue_events ((select db user c)\<lparr>command_queue := []\<rparr>))"
    by (simp add: return_error_def queue_shift_def q Let_def)
  have r: "snd (return_reply reply (select db user c))
      = invoke_callback (CbSelect db user) None
          (if detect_buffers c \<and> \<not> is_ABuf db then reply_to_strings reply else reply)
          (queue_events ((select db user c)\<lparr>command_queue := []\<rparr>))"
  proof -
    have d: "detect_buffers (select db user c) = detect_buffers c"
      by (simp add: sel)
    show ?thesis
      using ps
      by (simp add: return_reply_def is_push_def queue_shift_def q d Let_def reply_for_callback_def
            split: reply.splits)
  qed
  show ?thesis
    using a unfolding e r by (auto simp: Let_def split: option.splits)
qed

theorem select_saves_db_on_success_only_witness:
  "selected_db (snd (return_error (JsError ''ERR invalid DB index'' None)
                      (select (ANum 3) (Some 7) (ready_client no_options)))) = ANull
   \<and> last (events (snd (return_error (JsError ''ERR invalid DB index'' None)
                            (select (ANum 3) (Some 7) (ready_client no_options)))))
       = ECall 7 (Some (JsError ''ERR invalid DB index'' (Some ''SELECT''))) RUndefined
   \<and> last (events (snd (return_error (JsError ''ERR invalid DB index'' None)
                            (select (ANum 3) None (ready_client no_options)))))
       = EError (JsError ''ERR invalid DB index'' (Some ''SELECT''))
   \<and> selected_db (snd (return_reply (RStr ''OK'') (select (ANum 3) (Some 7) (ready_client no_options))))
       = ANum 3"
  using select_saves_db_on_success_only
          [of "ready_client no_options" "ANum 3" "Some 7" "JsError ''ERR invalid DB index'' None" "RStr ''OK''"]
        select_saves_db_on_success_only
          [of "ready_client no_options" "ANum 3" None "JsError ''ERR invalid DB index'' None" "RStr ''OK''"]
  by (simp add: ready_client_def RedisClient_def initialize_retry_vars_def open_stream_def
        toUpperCase_select)

section \<open>Commands in pub/sub mode\<close>

text \<open>What \<^verbatim>\<open>send_command\<close> does with a command that is not of the subscribe family,
  not \<^verbatim>\<open>monitor\<close> and not \<^verbatim>\<open>quit\<close> (and not a \<^verbatim>\<open>set\<close> or \<^verbatim>\<open>setex\<close>, which have their own
  validation before), on a ready client in pub/sub mode: it returns \<^verbatim>\<open>undefined\<close>, emits
  an \<^verbatim>\<open>error\<close> event and changes nothing else, whatever the callback is.\<close>

lemma send_command_in_pub_sub_mode:
  assumes "ready c \<or> send_anyway c" and "writable (stream c)" and "pub_sub_mode c"
    and "cmd \<notin> {''subscribe'', ''psubscribe'', ''unsubscribe'', ''punsubscribe'', ''monitor'', ''quit'',
                  ''set'', ''setex''}"
  shows "send_command cmd as cb c =
           (RetUndefined,
            emit (EError (JsError ''Connection in subscriber mode, only subscriber commands may be used'' None)) c)"
  using assms by (auto simp: send_command_def Let_def)

text \<open>
  Claim C6. A command other than the subscribe family, \<^verbatim>\<open>monitor\<close> and \<^verbatim>\<open>quit\<close>, sent by a
  ready client in pub/sub mode, is to be rejected with an error that goes to the
  callback of the command when there is one. The code rejects the command without
  queueing or writing it, but emits the error as an \<^verbatim>\<open>error\<close> event also when a callback
  was given: for \<^verbatim>\<open>get foo\<close> with the user's function 0 as callback the only thing that
  happens is the event, and function 0 is never called.
\<close>

theorem pub_sub_rejection_ignores_callback:
  "send_command ''get'' (Some [AStr ''foo'']) (CbFunction 0)
       ((ready_client no_options)\<lparr>pub_sub_mode := True\<rparr>)
     = (RetUndefined,
        ((ready_client no_options)\<lparr>pub_sub_mode := True\<rparr>)
          \<lparr>events := [EError (JsError ''Connection in subscriber mode, only subscriber commands may be used'' None)]\<rparr>)"
  by (simp add: send_command_def normal_args_def normal_callback_def Let_def emit_def
        ready_client_no_options open_stream_def)

section \<open>Replies of \<^verbatim>\<open>hgetall\<close>\<close>








lemma calls_pub_sub_reply_None [simp]:
  "filter is_call (events (snd (pub_sub_reply None reply c))) = filter is_call (events c)"
  by (auto simp: pub_sub_reply_def Let_def split: reply.splits option.splits)

lemma calls_queue_events [simp]:
  "filter is_call (events (queue_events c)) = filter is_call (events c)"
  by (simp add: queue_events_def Let_def)






section \<open>Losing the connection\<close>

lemma unflushed_updates [simp]:
  "unflushed (c\<lparr>offline_queue := q\<rparr>) = unflushed c"
  "unflushed (c\<lparr>command_queue := q\<rparr>) = unflushed c"
  "unflushed (c\<lparr>events := es\<rparr>) = unflushed c"
  "unflushed (c\<lparr>callback_count := cc\<rparr>) = unflushed c"
  "unflushed (emit e c) = unflushed c"
  by (simp_all add: unflushed_def emit_def)

lemma unflushed_invoke_error [simp]:
  "unflushed (invoke_callback cb (Some error) res c) = unflushed c"
  by (cases cb) (simp_all add: Let_def split: option.splits)

lemma calls_invoke_error:
  "filter is_invocation (events (invoke_callback cb (Some error) RUndefined c))
     = filter is_invocation (events c) @ invocations error cb"
  by (cases cb) (simp_all add: Let_def split: option.splits)

lemma reconnecting_invoke [simp]:
  "filter is_reconnecting (events (invoke_callback cb err res c)) = filter is_reconnecting (events c)"
  by (cases cb) (simp_all add: Let_def split: option.splits)

lemma flush_offline_queue_result:
  "offline_queue (flush_offline_queue error c) = []
   \<and> command_queue (flush_offline_queue error c) = command_queue c
   \<and> unflushed (flush_offline_queue error c) = unflushed c
   \<and> filter is_reconnecting (events (flush_offline_queue error c)) = filter is_reconnecting (events c)
   \<and> filter is_invocation (events (flush_offline_queue error c))
       = filter is_invocation (events c) @ error_calls error (offline_queue c)"
proof (induction error c rule: flush_offline_queue.induct)
  case (1 error c)
  show ?case
  proof (cases "offline_queue c")
    case Nil
    then show ?thesis by (simp add: flush_offline_queue.simps [of error c] error_calls_def)
  next
    case (Cons co q)
    let ?c1 = "c\<lparr>offline_queue := q\<rparr>"
    let ?c2 = "if is_function (callback co)
               then invoke_callback (callback co) (Some error) RUndefined ?c1 else ?c1"
    have step: "flush_offline_queue error c = flush_offline_queue error ?c2"
      using Cons by (simp add: flush_offline_queue.simps [of error c] Let_def)
    have q2: "offline_queue ?c2 = q" "command_queue ?c2 = command_queue c" "unflushed ?c2 = unflushed c"
      "filter is_reconnecting (events ?c2) = filter is_reconnecting (events c)"
      by simp_all
    have calls2: "filter is_invocation (events ?c2) = filter is_invocation (events c) @ error_calls error [co]"
      by (cases "callback co") (simp_all add: calls_invoke_error error_calls_def del: invoke_callback.simps)
    have ih: "offline_queue (flush_offline_queue error ?c2) = []
       \<and> command_queue (flush_offline_queue error ?c2) = command_queue ?c2
       \<and> unflushed (flush_offline_queue error ?c2) = unflushed ?c2
       \<and> filter is_reconnecting (events (flush_offline_queue error ?c2)) = filter is_reconnecting (events ?c2)
       \<and> filter is_invocation (events (flush_offline_queue error ?c2))
           = filter is_invocation (events ?c2) @ error_calls error (offline_queue ?c2)"
      using "1.IH" [OF Cons refl] by simp
    show ?thesis
      unfolding step using ih Cons q2 calls2 by (simp add: error_calls_def)
  qed
qed


lemma flush_command_queue_result:
  "command_queue (flush_command_queue error c) = []
   \<and> offline_queue (flush_command_queue error c) = offline_queue c
   \<and> unflushed (flush_command_queue error c) = unflushed c
   \<and> filter is_reconnecting (events (flush_command_queue error c)) = filter is_reconnecting (events c)
   \<and> filter is_invocation (events (flush_command_queue error c))
       = filter is_invocation (events c) @ error_calls error (command_queue c)"
proof (induction error c rule: flush_command_queue.induct)
  case (1 error c)
  show ?case
  proof (cases "command_queue c")
    case Nil
    then show ?thesis by (simp add: flush_command_queue.simps [of error c] error_calls_def)
  next
    case (Cons co q)
    let ?c1 = "c\<lparr>command_queue := q\<rparr>"
    let ?c2 = "if is_function (callback co)
               then invoke_callback (callback co) (Some error) RUndefined ?c1 else ?c1"
    have step: "flush_command_queue error c = flush_command_queue error ?c2"
      using Cons by (simp add: flush_command_queue.simps [of error c] Let_def)
    have q2: "command_queue ?c2 = q" "offline_queue ?c2 = offline_queue c" "unflushed ?c2 = unflushed c"
      "filter is_reconnecting (events ?c2) = filter is_reconnecting (events c)"
      by simp_all
    have calls2: "filter is_invocation (events ?c2) = filter is_invocation (events c) @ error_calls error [co]"
      by (cases "callback co") (simp_all add: calls_invoke_error error_calls_def del: invoke_callback.simps)
    have ih: "command_queue (flush_command_queue error ?c2) = []
       \<and> offline_queue (flush_command_queue error ?c2) = offline_queue ?c2
       \<and> unflushed (flush_command_queue error ?c2) = unflushed ?c2
       \<and> filter is_reconnecting (events (flush_command_queue error ?c2)) = filter is_reconnecting (events ?c2)
       \<and> filter is_invocation (events (flush_command_queue error ?c2))
           = filter is_invocation (events ?c2) @ error_calls error (command_queue ?c2)"
      using "1.IH" [OF Cons refl] by simp
    show ?thesis
      unfolding step using ih Cons q2 calls2 by (simp add: error_calls_def)
  qed
qed

lemma flush_and_error_result:
  "offline_queue (flush_and_error msg c) = []"
  "command_queue (flush_and_error msg c) = []"
  "unflushed (flush_and_error msg c) = unflushed c"
  "filter is_reconnecting (events (flush_and_error msg c)) = filter is_reconnecting (events c)"
  "filter is_invocation (events (flush_and_error msg c))
     = filter is_invocation (events c) @ error_calls (JsError msg None) (offline_queue c @ command_queue c)"
proof -
  let ?e = "JsError msg None"
  let ?c1 = "(flush_offline_queue ?e c)\<lparr>offline_queue := []\<rparr>"
  have f: "flush_and_error msg c = (flush_command_queue ?e ?c1)\<lparr>command_queue := []\<rparr>"
    by (simp add: flush_and_error_def Let_def)
  note a = flush_offline_queue_result [of ?e c]
  note b = flush_command_queue_result [of ?e ?c1]
  show "offline_queue (flush_and_error msg c) = []" using a b by (simp add: f)
  show "command_queue (flush_and_error msg c) = []" by (simp add: f)
  show "unflushed (flush_and_error msg c) = unflushed c" using a b by (simp add: f)
  show "filter is_reconnecting (events (flush_and_error msg c)) = filter is_reconnecting (events c)"
    using a b by (simp add: f)
  show "filter is_invocation (events (flush_and_error msg c))
     = filter is_invocation (events c) @ error_calls (JsError msg None) (offline_queue c @ command_queue c)"
    using a b by (simp add: f error_calls_def)
qed

lemma unflushed_eq_fields:
  assumes "unflushed a = unflushed b"
  shows "retry_delay a = retry_delay b" "retry_timer a = retry_timer b"
    "retry_totaltime a = retry_totaltime b" "attempts a = attempts b" "closing a = closing b"
    "max_attempts a = max_attempts b" "retry_max_delay a = retry_max_delay b"
    "connect_timeout a = connect_timeout b" "should_buffer a = should_buffer b"
    "stream a = stream b" "emitted_end a = emitted_end b" "old_state a = old_state b"
    "selected_db a = selected_db b" "pub_sub_mode a = pub_sub_mode b"
proof -
  have f: "\<And>f. f (unflushed a) = f (unflushed b)" using assms by simp
  show "retry_delay a = retry_delay b" using f [of retry_delay] by (simp add: unflushed_def)
  show "retry_timer a = retry_timer b" using f [of retry_timer] by (simp add: unflushed_def)
  show "retry_totaltime a = retry_totaltime b" using f [of retry_totaltime] by (simp add: unflushed_def)
  show "attempts a = attempts b" using f [of attempts] by (simp add: unflushed_def)
  show "closing a = closing b" using f [of closing] by (simp add: unflushed_def)
  show "max_attempts a = max_attempts b" using f [of max_attempts] by (simp add: unflushed_def)
  show "retry_max_delay a = retry_max_delay b" using f [of retry_max_delay] by (simp add: unflushed_def)
  show "connect_timeout a = connect_timeout b" using f [of connect_timeout] by (simp add: unflushed_def)
  show "should_buffer a = should_buffer b" using f [of should_buffer] by (simp add: unflushed_def)
  show "stream a = stream b" using f [of stream] by (simp add: unflushed_def)
  show "emitted_end a = emitted_end b" using f [of emitted_end] by (simp add: unflushed_def)
  show "old_state a = old_state b" using f [of old_state] by (simp add: unflushed_def)
  show "selected_db a = selected_db b" using f [of selected_db] by (simp add: unflushed_def)
  show "pub_sub_mode a = pub_sub_mode b" using f [of pub_sub_mode] by (simp add: unflushed_def)
qed

lemma before_flush_fields [simp]:
  "offline_queue (before_flush c) = offline_queue c"
  "command_queue (before_flush c) = command_queue c"
  "retry_delay (before_flush c) = retry_delay c"
  "retry_timer (before_flush c) = retry_timer c"
  "retry_totaltime (before_flush c) = retry_totaltime c"
  "attempts (before_flush c) = attempts c"
  "closing (before_flush c) = closing c"
  "max_attempts (before_flush c) = max_attempts c"
  "retry_max_delay (before_flush c) = retry_max_delay c"
  "connect_timeout (before_flush c) = connect_timeout c"
  "should_buffer (before_flush c) = should_buffer c"
  "filter is_invocation (events (before_flush c)) = filter is_invocation (events c)"
  "filter is_reconnecting (events (before_flush c)) = filter is_reconnecting (events c)"
  by (simp_all add: before_flush_def Let_def emit_def)


lemma schedule_retry_ok:
  assumes "case max_attempts c of None \<Rightarrow> True | Some m \<Rightarrow> m = 0 \<or> attempts c < m"
  shows "schedule_retry c =
           (emit (EReconnecting (next_delay (retry_max_delay c) (retry_delay c)) (attempts c + 1))
              (c\<lparr>retry_delay := next_delay (retry_max_delay c) (retry_delay c),
                 attempts := attempts c + 1\<rparr>))
           \<lparr>retry_timer := Some (next_delay (retry_max_delay c) (retry_delay c))\<rparr>"
proof -
  have ok: "\<not> (case max_attempts c of None \<Rightarrow> False | Some m \<Rightarrow> m \<noteq> 0 \<and> attempts c \<ge> m)"
    using assms by (auto split: option.splits)
  show ?thesis
  proof (cases "retry_max_delay c")
    case None
    then show ?thesis using ok
      by (cases "max_attempts c") (simp_all add: schedule_retry_def Let_def next_delay_def emit_def)
  next
    case (Some m)
    then show ?thesis using ok
      by (cases "max_attempts c") (simp_all add: schedule_retry_def Let_def next_delay_def emit_def)
  qed
qed

lemma connection_gone_retry:
  assumes "retry_timer c = None" and "\<not> closing c"
    and "case max_attempts c of None \<Rightarrow> True | Some m \<Rightarrow> m = 0 \<or> attempts c < m"
  shows "retry_delay (connection_gone why c) = next_delay (retry_max_delay c) (retry_delay c)"
    and "retry_timer (connection_gone why c) = Some (next_delay (retry_max_delay c) (retry_delay c))"
    and "attempts (connection_gone why c) = attempts c + 1"
    and "retry_totaltime (connection_gone why c) = retry_totaltime c"
    and "closing (connection_gone why c) = closing c"
    and "max_attempts (connection_gone why c) = max_attempts c"
    and "retry_max_delay (connection_gone why c) = retry_max_delay c"
    and "connect_timeout (connection_gone why c) = connect_timeout c"
    and "filter is_reconnecting (events (connection_gone why c))
           = filter is_reconnecting (events c)
             @ [EReconnecting (next_delay (retry_max_delay c) (retry_delay c)) (attempts c + 1)]"
proof -
  define c4 where "c4 = flush_and_error (''Redis connection gone from '' @ why @ '' event.'') (before_flush c)"
  note u = unflushed_eq_fields [OF flush_and_error_result(3) [of "''Redis connection gone from '' @ why @ '' event.''" "before_flush c"]]
  have f: "retry_delay c4 = retry_delay c" "attempts c4 = attempts c" "closing c4 = closing c"
    "max_attempts c4 = max_attempts c" "retry_max_delay c4 = retry_max_delay c"
    "connect_timeout c4 = connect_timeout c" "retry_totaltime c4 = retry_totaltime c"
    using u unfolding c4_def by simp_all
  have r: "filter is_reconnecting (events c4) = filter is_reconnecting (events c)"
    unfolding c4_def by (simp add: flush_and_error_result(4))
  have "connection_gone why c = schedule_retry c4"
    using assms f unfolding c4_def [symmetric] connection_gone_def Let_def c4_def [symmetric] by simp
  then have cg: "connection_gone why c =
           (emit (EReconnecting (next_delay (retry_max_delay c) (retry_delay c)) (attempts c + 1))
              (c4\<lparr>retry_delay := next_delay (retry_max_delay c) (retry_delay c),
                 attempts := attempts c + 1\<rparr>))
           \<lparr>retry_timer := Some (next_delay (retry_max_delay c) (retry_delay c))\<rparr>"
  proof -
    have "case max_attempts c4 of None \<Rightarrow> True | Some m \<Rightarrow> m = 0 \<or> attempts c4 < m"
      using assms(3) f by (auto split: option.splits)
    from schedule_retry_ok [OF this] \<open>connection_gone why c = schedule_retry c4\<close> f
    show ?thesis by simp
  qed
  show "retry_delay (connection_gone why c) = next_delay (retry_max_delay c) (retry_delay c)"
    and "retry_timer (connection_gone why c) = Some (next_delay (retry_max_delay c) (retry_delay c))"
    and "attempts (connection_gone why c) = attempts c + 1"
    and "retry_totaltime (connection_gone why c) = retry_totaltime c"
    and "closing (connection_gone why c) = closing c"
    and "max_attempts (connection_gone why c) = max_attempts c"
    and "retry_max_delay (connection_gone why c) = retry_max_delay c"
    and "connect_timeout (connection_gone why c) = connect_timeout c"
    and "filter is_reconnecting (events (connection_gone why c))
           = filter is_reconnecting (events c)
             @ [EReconnecting (next_delay (retry_max_delay c) (retry_delay c)) (attempts c + 1)]"
    unfolding cg using f r by (simp_all add: emit_def)
qed


lemma total_delay_mono: "total_delay rmd n \<le> total_delay rmd (Suc n)"
  by simp

lemma reconnect_failures_invariant:
  assumes "retry_timer c = None" and "retry_delay c = 200" and "retry_totaltime c = 0"
    and "attempts c = 1" and "\<not> closing c"
    and "case max_attempts c of None \<Rightarrow> True | Some m \<Rightarrow> m = 0 \<or> n + 1 < m"
    and "total_delay (retry_max_delay c) n < connect_timeout c"
  shows "retry_delay (reconnect_failures why ns n c) = backoff_delay (retry_max_delay c) (n + 1)
       \<and> retry_timer (reconnect_failures why ns n c) = Some (backoff_delay (retry_max_delay c) (n + 1))
       \<and> attempts (reconnect_failures why ns n c) = n + 2
       \<and> retry_totaltime (reconnect_failures why ns n c) = total_delay (retry_max_delay c) n
       \<and> \<not> closing (reconnect_failures why ns n c)
       \<and> max_attempts (reconnect_failures why ns n c) = max_attempts c
       \<and> retry_max_delay (reconnect_failures why ns n c) = retry_max_delay c
       \<and> connect_timeout (reconnect_failures why ns n c) = connect_timeout c
       \<and> filter is_reconnecting (events (reconnect_failures why ns n c))
           = filter is_reconnecting (events c)
             @ map (\<lambda>k. EReconnecting (backoff_delay (retry_max_delay c) k) (k + 1)) [1..<n + 2]
       \<and> (\<forall>j<n. fst (retry_timer_fired ns (reconnect_failures why ns j c)) = None)"
  using assms
proof (induction n)
  case 0
  have m: "case max_attempts c of None \<Rightarrow> True | Some m \<Rightarrow> m = 0 \<or> attempts c < m"
    using 0 by (auto split: option.splits)
  show ?case
    using connection_gone_retry [OF "0.prems"(1) "0.prems"(5) m, of why] "0.prems" by simp
next
  case (Suc n)
  let ?c = "reconnect_failures why ns n c"
  have m: "case max_attempts c of None \<Rightarrow> True | Some m \<Rightarrow> m = 0 \<or> n + 1 < m"
    using Suc.prems(6) by (auto split: option.splits)
  have t: "total_delay (retry_max_delay c) n < connect_timeout c"
    using Suc.prems(7) by simp
  note ih = Suc.IH [OF Suc.prems(1-5) m t]
  let ?f = "snd (retry_timer_fired ns ?c)"
  have f: "retry_timer ?f = None" "retry_delay ?f = retry_delay ?c" "attempts ?f = attempts ?c"
    "closing ?f = closing ?c" "max_attempts ?f = max_attempts ?c"
    "retry_max_delay ?f = retry_max_delay ?c" "connect_timeout ?f = connect_timeout ?c"
    "retry_totaltime ?f = retry_totaltime ?c + retry_delay ?c" "events ?f = events ?c"
    by (simp_all add: retry_timer_fired_def Let_def)
  have m2: "case max_attempts ?f of None \<Rightarrow> True | Some m \<Rightarrow> m = 0 \<or> attempts ?f < m"
    using Suc.prems(6) ih f by (auto split: option.splits)
  have nc: "\<not> closing ?f" using ih f by simp
  note g = connection_gone_retry [OF f(1) nc m2, of why]
  have fired: "fst (retry_timer_fired ns ?c) = None"
    using ih Suc.prems(7) by (simp add: retry_timer_fired_def Let_def)
  have "\<forall>j<Suc n. fst (retry_timer_fired ns (reconnect_failures why ns j c)) = None"
    using ih fired by (auto simp: less_Suc_eq)
  then show ?case
    using g f ih by simp
qed


lemma schedule_retry_queues [simp]:
  "offline_queue (schedule_retry c) = offline_queue c"
  "command_queue (schedule_retry c) = command_queue c"
  "filter is_invocation (events (schedule_retry c)) = filter is_invocation (events c)"
  by (auto simp: schedule_retry_def Let_def emit_def split: option.splits)






text \<open>
  Claim C3, as amended. Starting from fresh retry variables, the delay of the \<open>k\<close>-th
  \<^verbatim>\<open>reconnecting\<close> event, which is also the delay of the timer that rebuilds the
  transport, is \<open>d k\<close>, where \<open>d 0 = 200\<close> and \<open>d (k + 1)\<close> is the floor of
  \<open>1.7 * d k\<close>, replaced by \<open>retry_max_delay\<close> when it is above it; the event carries the
  attempt number \<open>k + 1\<close>. So the first delay is 340 ms. This holds for the first
  \<open>n + 1\<close> losses of the connection as long as the sum of the first \<open>n\<close> delays is
  below \<open>connect_timeout\<close> (each timer then rebuilds the transport) and \<open>max_attempts\<close>,
  if set, is above \<open>n + 1\<close>.
\<close>

theorem reconnect_delays:
  assumes "retry_timer c = None" and "retry_delay c = 200" and "retry_totaltime c = 0"
    and "attempts c = 1" and "\<not> closing c"
    and "case max_attempts c of None \<Rightarrow> True | Some m \<Rightarrow> m = 0 \<or> n + 1 < m"
    and "total_delay (retry_max_delay c) n < connect_timeout c"
  shows "filter is_reconnecting (events (reconnect_failures why new_stream n c))
           = filter is_reconnecting (events c)
             @ map (\<lambda>k. EReconnecting (backoff_delay (retry_max_delay c) k) (k + 1)) [1..<n + 2]
       \<and> retry_timer (reconnect_failures why new_stream n c)
           = Some (backoff_delay (retry_max_delay c) (n + 1))
       \<and> (\<forall>j<n. fst (retry_timer_fired new_stream (reconnect_failures why new_stream j c)) = None)"
  using reconnect_failures_invariant [OF assms, of why new_stream] by simp

lemma backoff_1: "backoff_delay rmd (Suc 0) = next_delay rmd 200"
  by simp
lemma backoff_2: "backoff_delay rmd 2 = next_delay rmd (next_delay rmd 200)"
  by (simp add: numeral_2_eq_2)
lemma backoff_3: "backoff_delay rmd 3 = next_delay rmd (next_delay rmd (next_delay rmd 200))"
  by (simp add: numeral_3_eq_3)

lemma backoff_values:
  "backoff_delay None (Suc 0) = 340" "backoff_delay None 2 = 578" "backoff_delay None 3 = 982"
  by (simp_all add: backoff_1 backoff_2 backoff_3 next_delay_def del: backoff_delay.simps)

lemma total_delay_values: "total_delay None 2 = 918"
  by (simp add: numeral_2_eq_2 next_delay_def)


lemma upt_1_4: "[Suc 0..<4] = [Suc 0, 2, 3]"
  by (simp add: upt_rec numeral_2_eq_2 numeral_3_eq_3 eval_nat_numeral)

theorem reconnect_delays_witness:
  "filter is_reconnecting (events (reconnect_failures ''close'' open_stream 2 (ready_client no_options)))
     = [EReconnecting 340 2, EReconnecting 578 3, EReconnecting 982 4]
   \<and> retry_timer (reconnect_failures ''close'' open_stream 2 (ready_client no_options)) = Some 982"
  using reconnect_delays [of "ready_client no_options" 2 "''close''" open_stream]
  by (simp add: ready_client_no_options backoff_values total_delay_values upt_1_4 del: backoff_delay.simps total_delay.simps)


text \<open>
  Claim C3 as stated fails at the first reconnect: \<^verbatim>\<open>connection_gone\<close> multiplies
  \<open>retry_delay\<close> by 1.7 before it announces and uses it, so the first delay is 340 ms,
  where the formula of the claim gives 200 ms.
\<close>

theorem first_reconnect_delay_counterexample:
  "filter is_reconnecting (events (connection_gone ''close'' (ready_client no_options)))
     = [EReconnecting 340 2]
   \<and> spec_delay None 1 = 200"
  using connection_gone_retry(9) [of "ready_client no_options" "''close''"]
  by (simp add: ready_client_no_options next_delay_def spec_delay_def)



end
